theory Spec2Isabelle
  imports Complex_Main
begin

section \<open>The connection manager of WebSocketContext.tsx\<close>

text \<open>
  The component \<open>WebSocketProvider\<close> (src/src/context/WebSocketContext.tsx) keeps its state
  in React hooks. Every render of the component declares the state values as constants
  (\<open>const [isConnecting, setIsConnecting] = useState(false)\<close>), and every callback is a
  closure over the constants of the render that created it. A setter never changes these
  constants: it writes the hook's stored value, which the next render reads.

  The embedding makes both explicit. A \<open>scope\<close> holds the constants of one render, the
  \<open>store\<close> of the \<open>world\<close> holds what the setters wrote, and every callback takes the scope
  it closes over as its first argument. A callback called by a consumer after a re-render
  is the callback at scope \<open>store w\<close>.

  A callback that another callback calls is taken at the scope of its caller.
  \<open>useCallback\<close> returns the callback of an earlier render while its listed dependencies
  are unchanged, and the constants it reads through that list are then equal in both
  renders. Where the list is incomplete (\<open>connect\<close> inside \<open>scheduleReconnect\<close>,
  \<open>stopPingInterval\<close> and \<open>send\<close> inside \<open>startPingInterval\<close>) the callee may belong to
  an earlier render still; at the first render every callback is created, and there the
  single scope is exact.
\<close>

subsection \<open>JavaScript values, object literals and JSON\<close>

text \<open>
  Numbers are modelled as exact rationals (no rounding, no NaN). \<open>JBigInt\<close> stands for the
  values \<open>JSON.stringify\<close> refuses with a TypeError. A function value \<open>JFun\<close> is
  represented by what \<open>JSON.stringify\<close> obtains from it when it is the \<open>toJSON\<close> member of
  the object being serialized: the call, or the serialization of what it returns, throws
  (\<open>Throws\<close>), the result is left out as \<open>undefined\<close> is (\<open>Omit\<close>), or it is a JSON value
  (\<open>Json\<close>).
\<close>

datatype 'a ser = Throws | Omit | Json 'a

datatype jsval =
    JUndefined
  | JNull
  | JBool bool
  | JNum rat
  | JStr string
  | JBigInt int
  | JFun "jsval ser"
  | JArr "jsval list"
  | JObj "(string \<times> jsval) list"

text \<open>Decimal digits, as used for the index keys of arrays and strings and for dates.\<close>

definition digit :: "nat \<Rightarrow> char" where
  "digit n = char_of (48 + n mod 10)"

fun dec :: "nat \<Rightarrow> string" where
  "dec n = (if n < 10 then [digit n] else dec (n div 10) @ [digit n])"

text \<open>Defining a property of an object literal: an existing key keeps its place and takes
  the new value, a new key is appended.\<close>

fun obj_set :: "string \<Rightarrow> jsval \<Rightarrow> (string \<times> jsval) list \<Rightarrow> (string \<times> jsval) list" where
  "obj_set k v [] = [(k, v)]"
| "obj_set k v ((k', v') # ps) = (if k' = k then (k, v) # ps else (k', v') # obj_set k v ps)"

fun index_from :: "nat \<Rightarrow> 'a list \<Rightarrow> (string \<times> 'a) list" where
  "index_from i [] = []"
| "index_from i (x # xs) = (dec i, x) # index_from (Suc i) xs"

text \<open>The own enumerable properties that \<open>...data\<close> copies: the properties of an object,
  the indexed elements of an array or a string, nothing for the other primitives.\<close>

fun own_props :: "jsval \<Rightarrow> (string \<times> jsval) list" where
  "own_props (JObj ps) = ps"
| "own_props (JArr xs) = index_from 0 xs"
| "own_props (JStr s) = index_from 0 (map (\<lambda>c. JStr [c]) s)"
| "own_props _ = []"

definition spread :: "(string \<times> jsval) list \<Rightarrow> (string \<times> jsval) list \<Rightarrow> (string \<times> jsval) list" where
  "spread ps acc = fold (\<lambda>(k, v). obj_set k v) ps acc"

text \<open>Reading \<open>v.k\<close>: a TypeError (\<open>None\<close>) on \<open>null\<close> and \<open>undefined\<close>, \<open>undefined\<close> where
  the property is missing.\<close>

fun get_member :: "jsval \<Rightarrow> string \<Rightarrow> jsval option" where
  "get_member JUndefined k = None"
| "get_member JNull k = None"
| "get_member v k = Some (case map_of (own_props v) k of None \<Rightarrow> JUndefined | Some x \<Rightarrow> x)"

text \<open>
  \<open>JSON.stringify\<close> and \<open>JSON.parse\<close> belong to the platform. A text frame is represented
  by the value it parses to (\<open>JsonText\<close>), or as text that is not JSON (\<open>NotJson\<close>).

  \<open>ser_prop\<close> is the serialization of one value. An object with an own function-valued
  \<open>toJSON\<close> member is replaced by what that function gives. A BigInt throws. \<open>undefined\<close>
  and functions are left out of objects and written as \<open>null\<close> in arrays.
  \<open>JSON.stringify\<close> throws (\<open>None\<close>), returns \<open>undefined\<close> (\<open>Some None\<close>) or returns a text.
\<close>

datatype frame = JsonText jsval | NotJson string

definition toJSON_of :: "(string \<times> jsval) list \<Rightarrow> jsval ser option" where
  "toJSON_of ps = (case map_of ps ''toJSON'' of Some (JFun res) \<Rightarrow> Some res | _ \<Rightarrow> None)"

fun ser_prop :: "jsval \<Rightarrow> jsval ser"
  and ser_props :: "(string \<times> jsval) list \<Rightarrow> (string \<times> jsval) list option"
  and ser_elems :: "jsval list \<Rightarrow> jsval list option" where
  "ser_prop (JObj ps) =
     (case toJSON_of ps of
        Some res \<Rightarrow> res
      | None \<Rightarrow> (case ser_props ps of None \<Rightarrow> Throws | Some qs \<Rightarrow> Json (JObj qs)))"
| "ser_prop (JArr xs) = (case ser_elems xs of None \<Rightarrow> Throws | Some ys \<Rightarrow> Json (JArr ys))"
| "ser_prop JUndefined = Omit"
| "ser_prop (JFun f) = Omit"
| "ser_prop JNull = Json JNull"
| "ser_prop (JBool b) = Json (JBool b)"
| "ser_prop (JNum x) = Json (JNum x)"
| "ser_prop (JStr s) = Json (JStr s)"
| "ser_prop (JBigInt n) = Throws"
| "ser_props [] = Some []"
| "ser_props ((k, v) # ps) =
     (case ser_prop v of
        Throws \<Rightarrow> None
      | Omit \<Rightarrow> ser_props ps
      | Json j \<Rightarrow> (case ser_props ps of None \<Rightarrow> None | Some qs \<Rightarrow> Some ((k, j) # qs)))"
| "ser_elems [] = Some []"
| "ser_elems (x # xs) =
     (case ser_prop x of
        Throws \<Rightarrow> None
      | Omit \<Rightarrow> (case ser_elems xs of None \<Rightarrow> None | Some ys \<Rightarrow> Some (JNull # ys))
      | Json j \<Rightarrow> (case ser_elems xs of None \<Rightarrow> None | Some ys \<Rightarrow> Some (j # ys)))"

definition JSON_stringify :: "jsval \<Rightarrow> frame option option" where
  "JSON_stringify v =
     (case ser_prop v of
        Throws \<Rightarrow> None
      | Omit \<Rightarrow> Some None
      | Json j \<Rightarrow> Some (Some (JsonText j)))"

fun JSON_parse :: "frame \<Rightarrow> jsval option" where
  "JSON_parse (JsonText v) = Some v"
| "JSON_parse (NotJson s) = None"

subsection \<open>The clock\<close>

text \<open>
  \<open>new Date().toISOString()\<close> is a platform function: the UTC fields of the current time,
  printed as \<open>YYYY-MM-DDTHH:mm:ss.sssZ\<close> (years 0 to 9999). \<open>iso8601\<close> recognises that
  format.
\<close>

record date =
  year :: nat
  month :: nat
  day :: nat
  hours :: nat
  minutes :: nat
  seconds :: nat
  millis :: nat

definition valid_date :: "date \<Rightarrow> bool" where
  "valid_date d \<longleftrightarrow>
     year d \<le> 9999 \<and> 1 \<le> month d \<and> month d \<le> 12 \<and> 1 \<le> day d \<and> day d \<le> 31 \<and>
     hours d < 24 \<and> minutes d < 60 \<and> seconds d < 60 \<and> millis d < 1000"

definition pad2 :: "nat \<Rightarrow> string" where
  "pad2 n = [digit (n div 10), digit n]"

definition pad3 :: "nat \<Rightarrow> string" where
  "pad3 n = [digit (n div 100), digit (n div 10), digit n]"

definition pad4 :: "nat \<Rightarrow> string" where
  "pad4 n = [digit (n div 1000), digit (n div 100), digit (n div 10), digit n]"

definition toISOString :: "date \<Rightarrow> string" where
  "toISOString d =
     pad4 (year d) @ ''-'' @ pad2 (month d) @ ''-'' @ pad2 (day d) @ ''T'' @
     pad2 (hours d) @ '':'' @ pad2 (minutes d) @ '':'' @ pad2 (seconds d) @ ''.'' @
     pad3 (millis d) @ ''Z''"

definition is_digit :: "char \<Rightarrow> bool" where
  "is_digit c \<longleftrightarrow> (48::nat) \<le> of_char c \<and> of_char c \<le> (57::nat)"

definition digit_val :: "char \<Rightarrow> nat" where
  "digit_val c = of_char c - 48"

definition num2 :: "char \<Rightarrow> char \<Rightarrow> nat" where
  "num2 a b = 10 * digit_val a + digit_val b"

fun iso8601 :: "string \<Rightarrow> bool" where
  "iso8601 [y1, y2, y3, y4, s1, m1, m2, s2, d1, d2, t, h1, h2, s3, n1, n2, s4, c1, c2, s5,
            f1, f2, f3, z] =
     (list_all is_digit [y1, y2, y3, y4, m1, m2, d1, d2, h1, h2, n1, n2, c1, c2, f1, f2, f3] \<and>
      s1 = CHR ''-'' \<and> s2 = CHR ''-'' \<and> t = CHR ''T'' \<and> s3 = CHR '':'' \<and> s4 = CHR '':'' \<and>
      s5 = CHR ''.'' \<and> z = CHR ''Z'' \<and>
      1 \<le> num2 m1 m2 \<and> num2 m1 m2 \<le> 12 \<and> 1 \<le> num2 d1 d2 \<and> num2 d1 d2 \<le> 31 \<and>
      num2 h1 h2 < 24 \<and> num2 n1 n2 < 60 \<and> num2 c1 c2 < 60)"
| "iso8601 s = False"

subsection \<open>Hook state, sockets, timers\<close>

datatype app_state = Active | Background | Inactive | Unknown | Extension

datatype ready_state = CONNECTING | OPEN | CLOSING | CLOSED

text \<open>A listener is a callback reference: its identity, and whether calling it with a
  message throws.\<close>

type_synonym listener = "nat \<times> (jsval \<Rightarrow> bool)"

text \<open>The constants of one render, in the order of lines 53 to 63. A timer handle is
  truthy when present.\<close>

record scope =
  socket :: "nat option"
  isConnected :: bool
  isConnecting :: bool
  connectionError :: "string option"
  lastMessage :: jsval
  listeners :: "listener list"
  reconnectTimer :: "nat option"
  pingInterval :: "nat option"
  reconnectAttempts :: nat
  isNetworkAvailable :: bool
  appState :: app_state

datatype console =
    ConnectingTo string
  | Established
  | Closed nat string
  | SocketError
  | Received jsval
  | ListenerError
  | ParseError
  | CreateError
  | MaxAttempts
  | Scheduling nat int
  | ReconnectAttempt nat
  | ReconnectFailed nat
  | CannotSend
  | SendError
  | Caught string

text \<open>A WebSocket object. Its four handlers are assigned once, in the call of \<open>connect\<close>
  that constructs it, and close over the scope of that \<open>connect\<close>. \<open>closeCall\<close> holds the
  arguments of \<open>close(code, reason)\<close>, and \<open>catchLog\<close> what the \<open>.catch\<close> of the caller of
  \<open>connect\<close> prints when the promise is rejected.\<close>

record sock =
  url :: string
  readyState :: ready_state
  handlers :: scope
  closeCall :: "(nat \<times> string) option"
  catchLog :: "console option"

text \<open>The callbacks given to \<open>setTimeout\<close> (line 148) and \<open>setInterval\<close> (line 110).\<close>

datatype callback = Reconnect nat scope | Ping scope

text \<open>
  Everything the callbacks act on: the hook store, the WebSocket objects ever constructed
  (a socket's identity is its index), the text frames written to sockets, the pending
  timers with their delay, the listener calls made, the console, and the \<open>resolve\<close> and
  \<open>reject\<close> calls of the promises of \<open>connect\<close>. \<open>dev\<close> and \<open>ios\<close> are \<open>__DEV__\<close> and
  \<open>Platform.OS === 'ios'\<close>; \<open>ctorThrows\<close> says that the WebSocket constructor throws.
\<close>

record world =
  store :: scope
  socks :: "sock list"
  written :: "(nat \<times> frame) list"
  timers :: "(nat \<times> rat \<times> callback) list"
  nextHandle :: nat
  delivered :: "(nat \<times> jsval) list"
  logs :: "console list"
  settled :: "(nat \<times> bool) list"
  dev :: bool
  ios :: bool
  ctorThrows :: bool

definition say :: "console \<Rightarrow> world \<Rightarrow> world" where
  "say e w = w\<lparr>logs := logs w @ [e]\<rparr>"

definition setSocket :: "nat option \<Rightarrow> world \<Rightarrow> world" where
  "setSocket v w = w\<lparr>store := (store w)\<lparr>socket := v\<rparr>\<rparr>"

definition setIsConnected :: "bool \<Rightarrow> world \<Rightarrow> world" where
  "setIsConnected v w = w\<lparr>store := (store w)\<lparr>isConnected := v\<rparr>\<rparr>"

definition setIsConnecting :: "bool \<Rightarrow> world \<Rightarrow> world" where
  "setIsConnecting v w = w\<lparr>store := (store w)\<lparr>isConnecting := v\<rparr>\<rparr>"

definition setConnectionError :: "string option \<Rightarrow> world \<Rightarrow> world" where
  "setConnectionError v w = w\<lparr>store := (store w)\<lparr>connectionError := v\<rparr>\<rparr>"

definition setLastMessage :: "jsval \<Rightarrow> world \<Rightarrow> world" where
  "setLastMessage v w = w\<lparr>store := (store w)\<lparr>lastMessage := v\<rparr>\<rparr>"

definition setListeners :: "(listener list \<Rightarrow> listener list) \<Rightarrow> world \<Rightarrow> world" where
  "setListeners f w = w\<lparr>store := (store w)\<lparr>listeners := f (listeners (store w))\<rparr>\<rparr>"

definition setReconnectTimer :: "nat option \<Rightarrow> world \<Rightarrow> world" where
  "setReconnectTimer v w = w\<lparr>store := (store w)\<lparr>reconnectTimer := v\<rparr>\<rparr>"

definition setPingInterval :: "nat option \<Rightarrow> world \<Rightarrow> world" where
  "setPingInterval v w = w\<lparr>store := (store w)\<lparr>pingInterval := v\<rparr>\<rparr>"

definition setReconnectAttempts :: "nat \<Rightarrow> world \<Rightarrow> world" where
  "setReconnectAttempts v w = w\<lparr>store := (store w)\<lparr>reconnectAttempts := v\<rparr>\<rparr>"

definition setIsNetworkAvailable :: "bool \<Rightarrow> world \<Rightarrow> world" where
  "setIsNetworkAvailable v w = w\<lparr>store := (store w)\<lparr>isNetworkAvailable := v\<rparr>\<rparr>"

definition setAppState :: "app_state \<Rightarrow> world \<Rightarrow> world" where
  "setAppState v w = w\<lparr>store := (store w)\<lparr>appState := v\<rparr>\<rparr>"

text \<open>\<open>setTimeout\<close> and \<open>setInterval\<close> return a fresh handle; \<open>clearTimeout\<close> and
  \<open>clearInterval\<close> drop the pending callback of that handle.\<close>

definition setTimer :: "callback \<Rightarrow> rat \<Rightarrow> world \<Rightarrow> nat \<times> world" where
  "setTimer cb delay w =
     (nextHandle w,
      w\<lparr>timers := timers w @ [(nextHandle w, delay, cb)], nextHandle := Suc (nextHandle w)\<rparr>)"

definition clearTimer :: "nat \<Rightarrow> world \<Rightarrow> world" where
  "clearTimer h w = w\<lparr>timers := filter (\<lambda>t. fst t \<noteq> h) (timers w)\<rparr>"

text \<open>\<open>socket.readyState === WebSocket.OPEN\<close> for the socket a scope holds (lines 111, 171,
  268, 282).\<close>

definition is_open :: "world \<Rightarrow> nat \<Rightarrow> bool" where
  "is_open w s \<longleftrightarrow> s < length (socks w) \<and> readyState (socks w ! s) = OPEN"

definition holds_open :: "scope \<Rightarrow> world \<Rightarrow> bool" where
  "holds_open r w = (case socket r of None \<Rightarrow> False | Some s \<Rightarrow> is_open w s)"

definition getWebSocketUrl :: "world \<Rightarrow> string" where
  "getWebSocketUrl w =
     (if dev w then (if ios w then ''ws://localhost:3001/ws'' else ''ws://10.0.2.2:3001/ws'')
      else ''wss://your-production-domain.com/ws'')"

definition MAX_RECONNECT_ATTEMPTS :: nat where
  "MAX_RECONNECT_ATTEMPTS = 5"

definition BASE_RECONNECT_DELAY :: rat where
  "BASE_RECONNECT_DELAY = 3000"

subsection \<open>send, sendLocation, notifyPhotoCapture (lines 281 to 309)\<close>

text \<open>The object literal \<open>{type, ...data, timestamp: new Date().toISOString()}\<close>; \<open>data\<close>
  defaults to \<open>{}\<close> when it is \<open>undefined\<close>. Both statements of the \<open>try\<close> can throw into
  the \<open>catch\<close> of line 295: \<open>JSON.stringify\<close>, and \<open>socket.send\<close> when it is given
  \<open>undefined\<close> instead of a text (React Native's WebSocket refuses such data).\<close>

definition envelope :: "string \<Rightarrow> jsval \<Rightarrow> date \<Rightarrow> jsval" where
  "envelope ty data now =
     JObj (obj_set ''timestamp'' (JStr (toISOString now))
            (spread (own_props (if data = JUndefined then JObj [] else data))
              (obj_set ''type'' (JStr ty) [])))"

definition send :: "scope \<Rightarrow> string \<Rightarrow> jsval \<Rightarrow> date \<Rightarrow> world \<Rightarrow> bool \<times> world" where
  "send r ty data now w =
     (case socket r of
        None \<Rightarrow> (False, say CannotSend w)
      | Some s \<Rightarrow>
          if \<not> is_open w s then (False, say CannotSend w)
          else (case JSON_stringify (envelope ty data now) of
                  None \<Rightarrow> (False, say SendError w)
                | Some None \<Rightarrow> (False, say SendError w)
                | Some (Some message) \<Rightarrow>
                    (True, w\<lparr>written := written w @ [(s, message)]\<rparr>)))"

definition sendLocation :: "scope \<Rightarrow> rat \<Rightarrow> rat \<Rightarrow> date \<Rightarrow> world \<Rightarrow> bool \<times> world" where
  "sendLocation r latitude longitude now w =
     send r ''location'' (JObj [(''latitude'', JNum latitude), (''longitude'', JNum longitude)])
       now w"

definition notifyPhotoCapture :: "scope \<Rightarrow> jsval \<Rightarrow> jsval \<Rightarrow> date \<Rightarrow> world \<Rightarrow> bool \<times> world" where
  "notifyPhotoCapture r photoId metadata now w =
     send r ''photo_capture'' (JObj [(''photoId'', photoId), (''metadata'', metadata)]) now w"

subsection \<open>Timers and reconnect scheduling (lines 107 to 167)\<close>

definition stopPingInterval :: "scope \<Rightarrow> world \<Rightarrow> world" where
  "stopPingInterval r w =
     (case pingInterval r of
        None \<Rightarrow> w
      | Some h \<Rightarrow> setPingInterval None (clearTimer h w))"

definition startPingInterval :: "scope \<Rightarrow> world \<Rightarrow> world" where
  "startPingInterval r w =
     (let (interval, w1) = setTimer (Ping r) 10000 (stopPingInterval r w)
      in setPingInterval (Some interval) w1)"

text \<open>\<open>Math.min(30000, BASE_RECONNECT_DELAY * Math.pow(1.5, reconnectAttempts))\<close>, then the
  jitter \<open>0.8 + Math.random() * 0.4\<close>, with \<open>u\<close> the value \<open>Math.random()\<close> returns.\<close>

definition base_delay :: "nat \<Rightarrow> rat" where
  "base_delay attempts = min 30000 (BASE_RECONNECT_DELAY * (3 / 2) ^ attempts)"

definition reconnect_delay :: "nat \<Rightarrow> rat \<Rightarrow> rat" where
  "reconnect_delay attempts u = base_delay attempts * (8 / 10 + u * (4 / 10))"

definition scheduleReconnect :: "scope \<Rightarrow> rat \<Rightarrow> world \<Rightarrow> world" where
  "scheduleReconnect r u w =
     (let w1 = (case reconnectTimer r of None \<Rightarrow> w | Some h \<Rightarrow> clearTimer h w)
      in if reconnectAttempts r \<ge> MAX_RECONNECT_ATTEMPTS then say MaxAttempts w1
         else
           let nextAttempt = reconnectAttempts r + 1;
               delay = reconnect_delay (reconnectAttempts r) u;
               w2 = say (Scheduling nextAttempt (round delay)) w1;
               (timer, w3) = setTimer (Reconnect nextAttempt r) delay w2
           in setReconnectTimer (Some timer) w3)"

definition cleanupConnection :: "scope \<Rightarrow> world \<Rightarrow> world" where
  "cleanupConnection r w =
     (let w1 = stopPingInterval r w
      in case reconnectTimer r of
           None \<Rightarrow> w1
         | Some h \<Rightarrow> setReconnectTimer None (clearTimer h w1))"

subsection \<open>connect and the socket handlers (lines 170 to 262)\<close>

datatype outcome = Resolved | Rejected string | Pending nat

text \<open>\<open>resolve()\<close> and \<open>reject(error)\<close> of the promise that belongs to socket \<open>s\<close>: the first
  call settles it, and a rejection runs the caller's \<open>.catch\<close>.\<close>

definition settle :: "nat \<Rightarrow> bool \<Rightarrow> world \<Rightarrow> world" where
  "settle s ok w =
     (if s \<in> set (map fst (settled w)) then w
      else
        let w1 = w\<lparr>settled := settled w @ [(s, ok)]\<rparr>
        in if ok \<or> s \<ge> length (socks w) then w1
           else (case catchLog (socks w ! s) of None \<Rightarrow> w1 | Some e \<Rightarrow> say e w1))"

definition connect :: "scope \<Rightarrow> world \<Rightarrow> outcome \<times> world" where
  "connect r w =
     (if holds_open r w then (Resolved, w)
      else if isConnecting r then (Resolved, w)
      else if \<not> isNetworkAvailable r then (Rejected ''No network connection available'', w)
      else
        let w1 = setConnectionError None (setIsConnecting True w);
            wsUrl = getWebSocketUrl w1;
            w2 = say (ConnectingTo wsUrl) w1
        in if ctorThrows w2 then
             (Rejected ''WebSocket constructor failed'',
              setConnectionError (Some ''WebSocket constructor failed'')
                (setIsConnecting False (say CreateError w2)))
           else
             (Pending (length (socks w2)),
              w2\<lparr>socks := socks w2 @
                [\<lparr>url = wsUrl, readyState = CONNECTING, handlers = r, closeCall = None,
                  catchLog = None\<rparr>]\<rparr>))"

definition onopen :: "scope \<Rightarrow> nat \<Rightarrow> world \<Rightarrow> world" where
  "onopen r s w =
     settle s True
       (startPingInterval r
         (setReconnectAttempts 0
           (setIsConnecting False
             (setIsConnected True
               (setSocket (Some s)
                 (say Established w))))))"

definition onclose :: "scope \<Rightarrow> nat \<Rightarrow> string \<Rightarrow> rat \<Rightarrow> world \<Rightarrow> world" where
  "onclose r code reason u w =
     (let w1 = say (Closed code (if reason = [] then ''No reason provided'' else reason)) w;
          w2 = cleanupConnection r (setSocket None (setIsConnecting False (setIsConnected False w1)))
      in if code \<noteq> 1000 \<and> appState r = Active \<and> isNetworkAvailable r
         then scheduleReconnect r u w2 else w2)"

definition onerror :: "scope \<Rightarrow> nat \<Rightarrow> world \<Rightarrow> world" where
  "onerror r s w =
     settle s False
       (setIsConnecting False
         (setConnectionError (Some ''WebSocket connection error'')
           (say SocketError w)))"

fun notify :: "listener list \<Rightarrow> jsval \<Rightarrow> world \<Rightarrow> world" where
  "notify [] message w = w"
| "notify (l # ls) message w =
     notify ls message
       (let w1 = w\<lparr>delivered := delivered w @ [(fst l, message)]\<rparr>
        in if snd l message then say ListenerError w1 else w1)"

text \<open>Reading \<open>message.type\<close> for the log line is inside the \<open>try\<close>: its TypeError on
  \<open>null\<close> lands in the same \<open>catch\<close> as a parse error.\<close>

definition onmessage :: "scope \<Rightarrow> frame \<Rightarrow> world \<Rightarrow> world" where
  "onmessage r data w =
     (case JSON_parse data of
        None \<Rightarrow> say ParseError w
      | Some message \<Rightarrow>
          (case get_member message ''type'' of
             None \<Rightarrow> say ParseError w
           | Some ty \<Rightarrow>
               let w1 = (if ty \<noteq> JStr ''pong'' \<and> ty \<noteq> JStr ''server_ping''
                         then say (Received ty) w else w)
               in notify (listeners r) message (setLastMessage message w1)))"

subsection \<open>disconnect and the listener registry (lines 265 to 327)\<close>

definition close_call :: "nat \<Rightarrow> nat \<Rightarrow> string \<Rightarrow> world \<Rightarrow> world" where
  "close_call s code reason w =
     w\<lparr>socks := (socks w)[s := (socks w ! s)\<lparr>readyState := CLOSING,
                                              closeCall := Some (code, reason)\<rparr>]\<rparr>"

definition disconnect :: "scope \<Rightarrow> world \<Rightarrow> world" where
  "disconnect r w =
     (let w1 = cleanupConnection r w;
          w2 = (case socket r of
                  None \<Rightarrow> w1
                | Some s \<Rightarrow>
                    if is_open w1 s
                    then close_call s 1000 ''Client disconnected intentionally'' w1 else w1)
      in setIsConnected False (setSocket None w2))"

definition addListener :: "listener \<Rightarrow> world \<Rightarrow> world" where
  "addListener callback w =
     setListeners (\<lambda>prevListeners.
        if fst callback \<in> set (map fst prevListeners) then prevListeners
        else prevListeners @ [callback]) w"

definition removeListener :: "listener \<Rightarrow> world \<Rightarrow> world" where
  "removeListener callback w =
     setListeners (\<lambda>prevListeners. filter (\<lambda>l. fst l \<noteq> fst callback) prevListeners) w"

subsection \<open>Effects and platform events\<close>

text \<open>\<open>connect().catch(...)\<close>: a rejection is printed by the caller's handler, at once or
  when the pending promise is rejected later.\<close>

definition connect_catch :: "scope \<Rightarrow> console \<Rightarrow> world \<Rightarrow> world" where
  "connect_catch r e w =
     (case connect r w of
        (Resolved, w1) \<Rightarrow> w1
      | (Rejected err, w1) \<Rightarrow> say e w1
      | (Pending s, w1) \<Rightarrow> w1\<lparr>socks := (socks w1)[s := (socks w1 ! s)\<lparr>catchLog := Some e\<rparr>]\<rparr>)"

text \<open>The effect of lines 330 to 336, run once after the first render.\<close>

definition mount :: "scope \<Rightarrow> world \<Rightarrow> world" where
  "mount r w =
     (if appState r = Active \<and> isNetworkAvailable r
      then connect_catch r (Caught ''Initial WebSocket connection failed'') w else w)"

definition handleAppStateChange :: "scope \<Rightarrow> app_state \<Rightarrow> world \<Rightarrow> world" where
  "handleAppStateChange r nextAppState w =
     setAppState nextAppState
       (if (appState r = Inactive \<or> appState r = Background) \<and> nextAppState = Active
        then (if \<not> isConnected r \<and> \<not> isConnecting r \<and> isNetworkAvailable r
              then connect_catch r (Caught ''connect'') w else w)
        else w)"

definition handleNetInfo :: "scope \<Rightarrow> bool \<Rightarrow> world \<Rightarrow> world" where
  "handleNetInfo r nowAvailable w =
     setIsNetworkAvailable nowAvailable
       (if nowAvailable \<and> \<not> isNetworkAvailable r \<and> \<not> isConnected r \<and> \<not> isConnecting r
        then connect_catch r (Caught ''connect'') w else w)"

text \<open>The transport reports open, error, close and a text frame on socket \<open>s\<close>; each runs
  the handler assigned to that socket.\<close>

definition set_ready :: "nat \<Rightarrow> ready_state \<Rightarrow> world \<Rightarrow> world" where
  "set_ready s st w = w\<lparr>socks := (socks w)[s := (socks w ! s)\<lparr>readyState := st\<rparr>]\<rparr>"

definition ws_open :: "nat \<Rightarrow> world \<Rightarrow> world" where
  "ws_open s w =
     (if s < length (socks w) \<and> readyState (socks w ! s) = CONNECTING
      then onopen (handlers (socks w ! s)) s (set_ready s OPEN w) else w)"

definition ws_error :: "nat \<Rightarrow> world \<Rightarrow> world" where
  "ws_error s w = (if s < length (socks w) then onerror (handlers (socks w ! s)) s w else w)"

definition ws_close :: "nat \<Rightarrow> nat \<Rightarrow> string \<Rightarrow> rat \<Rightarrow> world \<Rightarrow> world" where
  "ws_close s code reason u w =
     (if s < length (socks w) \<and> readyState (socks w ! s) \<noteq> CLOSED
      then onclose (handlers (socks w ! s)) code reason u (set_ready s CLOSED w) else w)"

definition ws_message :: "nat \<Rightarrow> frame \<Rightarrow> world \<Rightarrow> world" where
  "ws_message s data w =
     (if s < length (socks w) \<and> readyState (socks w ! s) = OPEN
      then onmessage (handlers (socks w ! s)) data w else w)"

text \<open>A pending timer fires: the reconnect callback of lines 148 to 154 (a timeout, gone
  once fired), or the ping callback of lines 110 to 116 (an interval).\<close>

definition fire :: "nat \<Rightarrow> date \<Rightarrow> world \<Rightarrow> world" where
  "fire h now w =
     (case find (\<lambda>t. fst t = h) (timers w) of
        None \<Rightarrow> w
      | Some (_, _, Reconnect nextAttempt r) \<Rightarrow>
          connect_catch r (ReconnectFailed nextAttempt)
            (say (ReconnectAttempt nextAttempt)
              (setReconnectAttempts nextAttempt (clearTimer h w)))
      | Some (_, _, Ping r) \<Rightarrow>
          if holds_open r w then snd (send r ''ping'' JUndefined now w)
          else stopPingInterval r w)"

text \<open>The first render and the world before any event.\<close>

definition first_render :: "app_state \<Rightarrow> scope" where
  "first_render a =
     \<lparr>socket = None, isConnected = False, isConnecting = False, connectionError = None,
      lastMessage = JNull, listeners = [], reconnectTimer = None, pingInterval = None,
      reconnectAttempts = 0, isNetworkAvailable = True, appState = a\<rparr>"

definition start :: "app_state \<Rightarrow> world" where
  "start a =
     \<lparr>store = first_render a, socks = [], written = [], timers = [], nextHandle = 1,
      delivered = [], logs = [], settled = [], dev = True, ios = True, ctorThrows = False\<rparr>"

text \<open>A trace is a list of steps, run from left to right.\<close>

definition run :: "(world \<Rightarrow> world) list \<Rightarrow> world \<Rightarrow> world" where
  "run steps w = fold (\<lambda>step. step) steps w"

definition pending_reconnects :: "world \<Rightarrow> nat list" where
  "pending_reconnects w =
     map fst (filter (\<lambda>t. case snd (snd t) of Reconnect n r \<Rightarrow> True | Ping r \<Rightarrow> False) (timers w))"

subsection \<open>Scenarios\<close>

text \<open>The world after the first render's effect has connected and the transport has
  reported open, and a moment of time.\<close>

definition online :: world where
  "online = run [mount (first_render Active), ws_open 0] (start Active)"

definition noon :: date where
  "noon = \<lparr>year = 2024, month = 5, day = 17, hours = 12, minutes = 0, seconds = 0, millis = 0\<rparr>"

text \<open>Two calls of \<open>connect\<close> through the same closure of the first render; a server that
  cannot be reached, up to the sixth and up to the second abnormal close; the app sent to
  the background while connected; an inbound message.\<close>

definition twice :: world where
  "twice = run [snd \<circ> connect (first_render Active), snd \<circ> connect (first_render Active)]
     (start Active)"

definition unreachable :: world where
  "unreachable =
     run [mount (first_render Active),
          ws_error 0, ws_close 0 1006 [] (1 / 2), fire 1 noon,
          ws_error 1, ws_close 1 1006 [] (1 / 2), fire 2 noon,
          ws_error 2, ws_close 2 1006 [] (1 / 2), fire 3 noon,
          ws_error 3, ws_close 3 1006 [] (1 / 2), fire 4 noon,
          ws_error 4, ws_close 4 1006 [] (1 / 2), fire 5 noon,
          ws_error 5, ws_close 5 1006 [] (1 / 2)]
       (start Active)"

definition retried :: world where
  "retried =
     run [mount (first_render Active),
          ws_error 0, ws_close 0 1006 [] (1 / 2), fire 1 noon,
          ws_error 1, ws_close 1 1006 [] (1 / 2)]
       (start Active)"

definition backgrounded :: world where
  "backgrounded =
     run [mount (first_render Active), ws_open 0,
          (\<lambda>w. handleAppStateChange (store w) Background w)]
       (start Active)"

definition hello :: jsval where
  "hello = JObj [(''type'', JStr ''hello'')]"

section \<open>Properties\<close>

lemmas setters =
  say_def setSocket_def setIsConnected_def setIsConnecting_def setConnectionError_def
  setLastMessage_def setListeners_def setReconnectTimer_def setPingInterval_def
  setReconnectAttempts_def setIsNetworkAvailable_def setAppState_def

subsection \<open>Reconnect backoff\<close>

lemma base_delay_nonneg: "0 \<le> base_delay n"
  by (simp add: base_delay_def BASE_RECONNECT_DELAY_def)

lemma base_delay_values:
  "base_delay 0 = 3000" "base_delay 1 = 4500" "base_delay 2 = 6750" "base_delay 3 = 10125"
  by (simp_all add: base_delay_def BASE_RECONNECT_DELAY_def power2_eq_square power3_eq_cube)

lemma reconnect_delay_bounds:
  assumes "0 \<le> u" "u < 1"
  shows "8 / 10 * base_delay n \<le> reconnect_delay n u"
    and "reconnect_delay n u \<le> 12 / 10 * base_delay n"
proof -
  have lo: "8 / 10 \<le> 8 / 10 + u * (4 / 10)" and hi: "8 / 10 + u * (4 / 10) \<le> 12 / 10"
    using assms by simp_all
  show "8 / 10 * base_delay n \<le> reconnect_delay n u"
    unfolding reconnect_delay_def
    using mult_left_mono [OF lo base_delay_nonneg [of n]] by (simp add: mult.commute)
  show "reconnect_delay n u \<le> 12 / 10 * base_delay n"
    unfolding reconnect_delay_def
    using mult_left_mono [OF hi base_delay_nonneg [of n]] by (simp add: mult.commute)
qed

lemma timers_scheduleReconnect:
  assumes "reconnectAttempts r < MAX_RECONNECT_ATTEMPTS"
  shows "timers (scheduleReconnect r u w) =
     timers (case reconnectTimer r of None \<Rightarrow> w | Some h \<Rightarrow> clearTimer h w) @
       [(nextHandle w, reconnect_delay (reconnectAttempts r) u,
         Reconnect (reconnectAttempts r + 1) r)]"
  using assms
  by (simp add: scheduleReconnect_def Let_def setTimer_def clearTimer_def setters
      split: option.splits)

text \<open>One call of \<open>scheduleReconnect\<close>, by what its closure reads: the delay is
  \<open>min(30000, 3000 * 1.5^attempts)\<close> times a jitter factor in \<open>[0.8, 1.2)\<close>, with
  \<open>attempts\<close> the constant \<open>reconnectAttempts\<close> of the closure.\<close>

lemma scheduled_delay_per_call:
  "base_delay n = min 30000 (3000 * (3 / 2) ^ n) \<and>
   (0 \<le> u \<and> u < 1 \<longrightarrow>
      reconnect_delay n u = base_delay n * (8 / 10 + u * (4 / 10)) \<and>
      8 / 10 \<le> 8 / 10 + u * (4 / 10) \<and> 8 / 10 + u * (4 / 10) < 12 / 10 \<and>
      8 / 10 * base_delay n \<le> reconnect_delay n u \<and>
      reconnect_delay n u \<le> 12 / 10 * base_delay n) \<and>
   (reconnectAttempts r < MAX_RECONNECT_ATTEMPTS \<longrightarrow>
      timers (scheduleReconnect r u w) =
        timers (case reconnectTimer r of None \<Rightarrow> w | Some h \<Rightarrow> clearTimer h w) @
          [(nextHandle w, reconnect_delay (reconnectAttempts r) u,
            Reconnect (reconnectAttempts r + 1) r)])"
proof -
  have "base_delay n = min 30000 (3000 * (3 / 2) ^ n)"
    by (simp add: base_delay_def BASE_RECONNECT_DELAY_def)
  moreover have "reconnect_delay n u = base_delay n * (8 / 10 + u * (4 / 10))"
    by (simp add: reconnect_delay_def)
  moreover have "0 \<le> u \<and> u < 1 \<longrightarrow>
      8 / 10 \<le> 8 / 10 + u * (4 / 10) \<and> 8 / 10 + u * (4 / 10) < 12 / 10"
    by simp
  ultimately show ?thesis
    using reconnect_delay_bounds [of u n] timers_scheduleReconnect [of r u w]
    by blast
qed

text \<open>
  C4. In the automatic reconnect chain the delay does not follow the attempts counter.
  The server cannot be reached; the first reconnect timer has fired, so the stored counter
  is 1, and the second socket closes abnormally. Its \<open>onclose\<close> calls the
  \<open>scheduleReconnect\<close> of the first render, which computes the delay from that render's
  constant \<open>reconnectAttempts = 0\<close> (line 143): with \<open>Math.random()\<close> returning 0.5 (jitter
  factor 1) the timer is set to 3000 ms. The base delay for one attempt is 4500 ms, and
  3000 is below 0.8 times that.
\<close>

theorem C4_delay_ignores_attempts_counter:
  "reconnectAttempts (store retried) = 1 \<and>
   map (fst \<circ> snd) (timers retried) = [3000] \<and>
   base_delay 0 = 3000 \<and> base_delay 1 = 4500 \<and> base_delay 2 = 6750 \<and> base_delay 3 = 10125 \<and>
   reconnect_delay (reconnectAttempts (store retried)) (1 / 2) = 4500 \<and>
   3000 < 8 / 10 * base_delay (reconnectAttempts (store retried))"
  by code_simp

subsection \<open>Object literals, JSON and the clock\<close>







lemma of_char_digit: "of_char (digit n) = 48 + n mod 10"
proof -
  have "48 + n mod 10 < 256"
    using mod_less_divisor [of 10 n] by linarith
  then show ?thesis by (simp add: digit_def)
qed

lemma is_digit_digit: "is_digit (digit n)"
  by (simp add: is_digit_def of_char_digit)

lemma digit_val_digit: "digit_val (digit n) = n mod 10"
  by (simp add: digit_val_def of_char_digit)

lemma num2_pad: "n < 100 \<Longrightarrow> num2 (digit (n div 10)) (digit n) = n"
  by (simp add: num2_def digit_val_digit)

lemma iso8601_toISOString: "valid_date d \<Longrightarrow> iso8601 (toISOString d)"
  by (simp add: toISOString_def pad2_def pad3_def pad4_def valid_date_def is_digit_digit num2_pad)


subsection \<open>Sending\<close>

lemma send_closed:
  assumes "\<not> holds_open r w"
  shows "send r ty data now w = (False, say CannotSend w)"
proof (cases "socket r")
  case None
  then show ?thesis by (simp add: send_def)
next
  case (Some s)
  with assms have "\<not> is_open w s" by (simp add: holds_open_def)
  with Some show ?thesis by (simp add: send_def)
qed

lemma send_open:
  assumes "holds_open r w"
  shows "\<exists>s. socket r = Some s \<and> is_open w s \<and>
    send r ty data now w =
      (case JSON_stringify (envelope ty data now) of
         None \<Rightarrow> (False, say SendError w)
       | Some None \<Rightarrow> (False, say SendError w)
       | Some (Some message) \<Rightarrow> (True, w\<lparr>written := written w @ [(s, message)]\<rparr>))"
proof -
  from assms obtain s where s: "socket r = Some s" "is_open w s"
    by (auto simp: holds_open_def split: option.splits)
  then show ?thesis
    by (simp add: send_def)
qed

lemma online_open: "holds_open (store online) online"
  by code_simp

lemma valid_noon: "valid_date noon"
  by code_simp

text \<open>
  C2 (as amended). \<open>send\<close> returns a boolean and has no other outcome. When the closure
  holds no open socket it returns false and writes nothing. When it holds an open socket
  and \<open>JSON.stringify\<close> throws on the envelope, or returns \<open>undefined\<close> so that the write
  throws, the \<open>catch\<close> of line 295 returns false and nothing is written. When it holds an
  open socket and the envelope serialises to a text, it returns true and writes exactly
  that one text frame to the socket.
\<close>

theorem C2_send_gating:
  "(\<not> holds_open r w \<longrightarrow>
      fst (send r ty data now w) = False \<and> written (snd (send r ty data now w)) = written w) \<and>
   (holds_open r w \<and> JSON_stringify (envelope ty data now) = None \<longrightarrow>
      fst (send r ty data now w) = False \<and> written (snd (send r ty data now w)) = written w) \<and>
   (holds_open r w \<and> JSON_stringify (envelope ty data now) = Some None \<longrightarrow>
      fst (send r ty data now w) = False \<and> written (snd (send r ty data now w)) = written w) \<and>
   (holds_open r w \<and> JSON_stringify (envelope ty data now) = Some (Some message) \<longrightarrow>
      (\<exists>s. socket r = Some s \<and>
           send r ty data now w = (True, w\<lparr>written := written w @ [(s, message)]\<rparr>)))"
proof -
  have "\<not> holds_open r w \<longrightarrow>
      fst (send r ty data now w) = False \<and> written (snd (send r ty data now w)) = written w"
    by (simp add: send_closed say_def)
  moreover have "holds_open r w \<and> JSON_stringify (envelope ty data now) = None \<longrightarrow>
      fst (send r ty data now w) = False \<and> written (snd (send r ty data now w)) = written w"
    using send_open [of r w ty data now] by (auto simp: say_def)
  moreover have "holds_open r w \<and> JSON_stringify (envelope ty data now) = Some None \<longrightarrow>
      fst (send r ty data now w) = False \<and> written (snd (send r ty data now w)) = written w"
    using send_open [of r w ty data now] by (auto simp: say_def)
  moreover have "holds_open r w \<and>
      JSON_stringify (envelope ty data now) = Some (Some message) \<longrightarrow>
      (\<exists>s. socket r = Some s \<and>
           send r ty data now w = (True, w\<lparr>written := written w @ [(s, message)]\<rparr>))"
    using send_open [of r w ty data now] by auto
  ultimately show ?thesis by blast
qed

theorem C2_send_gating_witness:
  "\<not> holds_open (first_render Active) (start Active) \<and>
   fst (send (first_render Active) ''location'' (JObj []) noon (start Active)) = False \<and>
   written (snd (send (first_render Active) ''location'' (JObj []) noon (start Active))) =
     written (start Active) \<and>
   holds_open (store online) online \<and>
   JSON_stringify (envelope ''photo_capture'' (JObj [(''photoId'', JBigInt 1)]) noon) = None \<and>
   fst (send (store online) ''photo_capture'' (JObj [(''photoId'', JBigInt 1)]) noon online) =
     False \<and>
   JSON_stringify (envelope ''location'' (JObj [(''toJSON'', JFun Omit)]) noon) = Some None \<and>
   fst (send (store online) ''location'' (JObj [(''toJSON'', JFun Omit)]) noon online) =
     False \<and>
   JSON_stringify (envelope ''ping'' JUndefined noon) =
     Some (Some (JsonText (envelope ''ping'' JUndefined noon))) \<and>
   (\<exists>s. socket (store online) = Some s \<and>
        send (store online) ''ping'' JUndefined noon online =
          (True, online\<lparr>written := written online @
             [(s, JsonText (envelope ''ping'' JUndefined noon))]\<rparr>))"
proof -
  have a: "\<not> holds_open (first_render Active) (start Active)"
    by code_simp
  have b: "JSON_stringify (envelope ''photo_capture'' (JObj [(''photoId'', JBigInt 1)]) noon) =
      None"
    by code_simp
  have c: "JSON_stringify (envelope ''ping'' JUndefined noon) =
      Some (Some (JsonText (envelope ''ping'' JUndefined noon)))"
    by code_simp
  have d: "JSON_stringify (envelope ''location'' (JObj [(''toJSON'', JFun Omit)]) noon) =
      Some None"
    by code_simp
  show ?thesis
    using a b c d online_open
      C2_send_gating [where r = "first_render Active" and w = "start Active"
        and ty = "''location''" and data = "JObj []" and now = noon]
      C2_send_gating [where r = "store online" and w = online and ty = "''photo_capture''"
        and data = "JObj [(''photoId'', JBigInt 1)]" and now = noon]
      C2_send_gating [where r = "store online" and w = online and ty = "''location''"
        and data = "JObj [(''toJSON'', JFun Omit)]" and now = noon]
      C2_send_gating [where r = "store online" and w = online and ty = "''ping''"
        and data = JUndefined and now = noon
        and message = "JsonText (envelope ''ping'' JUndefined noon)"]
    by blast
qed

text \<open>
  C2 as stated fails: on an open socket, a payload that holds a BigInt makes
  \<open>JSON.stringify\<close> throw, and \<open>send\<close> returns false without a write.
\<close>

theorem C2_send_connected_unserializable:
  "holds_open (store online) online \<and>
   fst (send (store online) ''photo_capture''
          (JObj [(''photoId'', JStr ''p1''), (''metadata'', JObj [(''size'', JBigInt 10)])])
          noon online) = False \<and>
   written (snd (send (store online) ''photo_capture''
          (JObj [(''photoId'', JStr ''p1''), (''metadata'', JObj [(''size'', JBigInt 10)])])
          noon online)) = []"
  by code_simp

text \<open>
  C7. While the closure holds an open socket, \<open>sendLocation(latitude, longitude)\<close>
  returns true and writes exactly one frame; the frame parses to an object whose \<open>type\<close>
  is \<open>"location"\<close>, whose \<open>latitude\<close> and \<open>longitude\<close> are the arguments, and whose
  \<open>timestamp\<close> is the ISO-8601 string of the clock.
\<close>

theorem C7_sendLocation_envelope:
  assumes "holds_open r w" and "valid_date now"
  shows "\<exists>s message v t.
     socket r = Some s \<and>
     sendLocation r latitude longitude now w =
       (True, w\<lparr>written := written w @ [(s, message)]\<rparr>) \<and>
     message = JsonText v \<and> JSON_parse message = Some v \<and>
     v = JObj [(''type'', JStr ''location''), (''latitude'', JNum latitude),
               (''longitude'', JNum longitude), (''timestamp'', JStr t)] \<and>
     get_member v ''type'' = Some (JStr ''location'') \<and>
     get_member v ''latitude'' = Some (JNum latitude) \<and>
     get_member v ''longitude'' = Some (JNum longitude) \<and>
     get_member v ''timestamp'' = Some (JStr t) \<and>
     t = toISOString now \<and> iso8601 t"
proof -
  let ?data = "JObj [(''latitude'', JNum latitude), (''longitude'', JNum longitude)]"
  let ?v = "JObj [(''type'', JStr ''location''), (''latitude'', JNum latitude),
               (''longitude'', JNum longitude), (''timestamp'', JStr (toISOString now))]"
  have env: "envelope ''location'' ?data now = ?v"
    by (simp add: envelope_def spread_def)
  have str: "JSON_stringify ?v = Some (Some (JsonText ?v))"
    by (simp add: JSON_stringify_def toJSON_of_def)
  obtain s where s: "socket r = Some s"
    and snd: "send r ''location'' ?data now w =
       (True, w\<lparr>written := written w @ [(s, JsonText ?v)]\<rparr>)"
    using send_open [OF assms(1), of "''location''" ?data now] env str by auto
  have "iso8601 (toISOString now)"
    by (rule iso8601_toISOString [OF assms(2)])
  then show ?thesis
    using s snd
    by (intro exI [of _ s] exI [of _ "JsonText ?v"] exI [of _ ?v] exI [of _ "toISOString now"])
      (simp add: sendLocation_def)
qed


theorem C7_sendLocation_envelope_witness:
  "holds_open (store online) online \<and> valid_date noon \<and>
   fst (sendLocation (store online) 48.8584 2.2945 noon online) = True \<and>
   written (snd (sendLocation (store online) 48.8584 2.2945 noon online)) =
     [(0, JsonText (JObj [(''type'', JStr ''location''), (''latitude'', JNum 48.8584),
        (''longitude'', JNum 2.2945), (''timestamp'', JStr ''2024-05-17T12:00:00.000Z'')]))]"
proof -
  have s: "socket (store online) = Some 0" and w: "written online = []"
    by code_simp+
  have t: "toISOString noon = ''2024-05-17T12:00:00.000Z''"
    by code_simp
  show ?thesis
    using C7_sendLocation_envelope [OF online_open valid_noon, of "48.8584" "2.2945"]
      online_open valid_noon s w t
    by auto
qed





subsection \<open>connect\<close>

text \<open>One call of \<open>connect\<close>, by what its closure reads: it resolves at once and changes
  nothing when the closure holds an open socket or its \<open>isConnecting\<close> is true, it rejects
  and opens nothing without network, and otherwise it constructs one socket. A second call
  through a closure of the next render (scope \<open>store\<close>) resolves.\<close>

lemma connect_when_open: "holds_open r w \<Longrightarrow> connect r w = (Resolved, w)"
  by (simp add: connect_def)

lemma connect_when_connecting: "isConnecting r \<Longrightarrow> connect r w = (Resolved, w)"
  by (simp add: connect_def)

lemma connect_offline:
  "\<not> holds_open r w \<Longrightarrow> \<not> isConnecting r \<Longrightarrow> \<not> isNetworkAvailable r \<Longrightarrow>
   connect r w = (Rejected ''No network connection available'', w)"
  by (simp add: connect_def)

lemma connect_no_socket_offline: "\<not> isNetworkAvailable r \<Longrightarrow> socks (snd (connect r w)) = socks w"
  by (simp add: connect_def)

lemma connect_opens:
  assumes "\<not> holds_open r w" "\<not> isConnecting r" "isNetworkAvailable r" "\<not> ctorThrows w"
  shows "fst (connect r w) = Pending (length (socks w))"
    and "length (socks (snd (connect r w))) = Suc (length (socks w))"
    and "isConnecting (store (snd (connect r w)))"
  using assms by (simp_all add: connect_def Let_def setters)

lemma connect_after_render:
  assumes "\<not> holds_open r w" "\<not> isConnecting r" "isNetworkAvailable r" "\<not> ctorThrows w"
  shows "connect (store (snd (connect r w))) (snd (connect r w)) = (Resolved, snd (connect r w))"
  using connect_opens(3) [OF assms] by (rule connect_when_connecting)

text \<open>
  C1. Two calls of \<open>connect()\<close> in succession through the same closure, while
  disconnected: the second call reads the same constant \<open>isConnecting = false\<close> as the first
  (line 175), since \<open>setIsConnecting(true)\<close> of line 183 reaches only the next render, and
  each call constructs a WebSocket.
\<close>

theorem C1_connect_twice_opens_two_sockets:
  "socket (first_render Active) = None \<and> \<not> isConnecting (first_render Active) \<and>
   fst (connect (first_render Active) (start Active)) = Pending 0 \<and>
   fst (connect (first_render Active) (snd (connect (first_render Active) (start Active)))) =
     Pending 1 \<and>
   map readyState (socks twice) = [CONNECTING, CONNECTING]"
  by code_simp

subsection \<open>Reconnect scheduling and the attempts counter\<close>

lemma attempts_connect: "reconnectAttempts (store (snd (connect r w))) = reconnectAttempts (store w)"
  by (simp add: connect_def Let_def setters)

lemma attempts_connect_catch:
  "reconnectAttempts (store (connect_catch r e w)) = reconnectAttempts (store w)"
  using attempts_connect [of r w]
  by (cases "connect r w") (auto simp: connect_catch_def say_def split: outcome.splits)

lemma store_scheduleReconnect:
  "reconnectAttempts (store (scheduleReconnect r u w)) = reconnectAttempts (store w)"
  by (simp add: scheduleReconnect_def Let_def setTimer_def clearTimer_def setters
      split: option.splits)

lemma scheduleReconnect_at_ceiling:
  "reconnectAttempts r \<ge> MAX_RECONNECT_ATTEMPTS \<Longrightarrow>
   timers (scheduleReconnect r u w) =
     timers (case reconnectTimer r of None \<Rightarrow> w | Some h \<Rightarrow> clearTimer h w)"
  by (simp add: scheduleReconnect_def Let_def say_def split: option.splits)

lemma onopen_resets_attempts: "reconnectAttempts (store (onopen r s w)) = 0"
  by (simp add: onopen_def settle_def startPingInterval_def stopPingInterval_def setTimer_def
      clearTimer_def Let_def setters split: option.splits)

lemma find_fresh_handle:
  assumes "\<forall>t\<in>set ts. fst t \<noteq> h"
  shows "find (\<lambda>t. fst t = h) (ts @ [(h, x)]) = Some (h, x)"
  using assms by (induction ts) auto

lemma timers_cleared_subset:
  "set (timers (case reconnectTimer r of None \<Rightarrow> w | Some h \<Rightarrow> clearTimer h w)) \<subseteq> set (timers w)"
  by (auto simp: clearTimer_def split: option.splits)

lemma scheduleReconnect_cancels_captured:
  assumes "reconnectTimer r = Some h" and "h \<noteq> nextHandle w"
  shows "h \<notin> fst ` set (timers (scheduleReconnect r u w))"
  using assms
  by (auto simp: scheduleReconnect_def Let_def setTimer_def clearTimer_def setters
      MAX_RECONNECT_ATTEMPTS_def)

text \<open>
  C8 (as amended). Scheduling a reconnect leaves the attempts counter as it is. The pending
  timer carries the attempt number \<open>n = reconnectAttempts + 1\<close> computed at scheduling and a
  delay computed with exponent \<open>n - 1\<close>; the counter is set to \<open>n\<close> when that timer fires.
  Here \<open>reconnectAttempts\<close> is the constant the scheduling closure reads.
\<close>

theorem C8_counter_set_when_timer_fires:
  assumes "reconnectAttempts r < MAX_RECONNECT_ATTEMPTS"
    and "\<forall>t\<in>set (timers w). fst t < nextHandle w"
  shows "reconnectAttempts (store (scheduleReconnect r u w)) = reconnectAttempts (store w) \<and>
     find (\<lambda>t. fst t = nextHandle w) (timers (scheduleReconnect r u w)) =
       Some (nextHandle w, reconnect_delay (reconnectAttempts r + 1 - 1) u,
             Reconnect (reconnectAttempts r + 1) r) \<and>
     reconnectAttempts (store (fire (nextHandle w) now (scheduleReconnect r u w))) =
       reconnectAttempts r + 1"
proof -
  let ?w' = "scheduleReconnect r u w"
  let ?old = "timers (case reconnectTimer r of None \<Rightarrow> w | Some h \<Rightarrow> clearTimer h w)"
  have old: "\<forall>t\<in>set ?old. fst t \<noteq> nextHandle w"
    using assms(2) timers_cleared_subset [where r = r and w = w] by fastforce
  have f: "find (\<lambda>t. fst t = nextHandle w) (timers ?w') =
       Some (nextHandle w, reconnect_delay (reconnectAttempts r) u,
             Reconnect (reconnectAttempts r + 1) r)"
    using find_fresh_handle [OF old] timers_scheduleReconnect [OF assms(1), of u w]
    by simp
  then have "reconnectAttempts (store (fire (nextHandle w) now ?w')) = reconnectAttempts r + 1"
    by (simp add: fire_def attempts_connect_catch) (simp add: setters clearTimer_def)
  then show ?thesis
    using f store_scheduleReconnect [of r u w] by simp
qed


theorem C8_counter_set_when_timer_fires_witness:
  "reconnectAttempts (first_render Active) < MAX_RECONNECT_ATTEMPTS \<and>
   timers (start Active) = [] \<and>
   reconnectAttempts (store (scheduleReconnect (first_render Active) (1 / 2) (start Active))) = 0 \<and>
   find (\<lambda>t. fst t = 1) (timers (scheduleReconnect (first_render Active) (1 / 2) (start Active))) =
     Some (1, 3000, Reconnect 1 (first_render Active)) \<and>
   reconnectAttempts (store (fire 1 noon
     (scheduleReconnect (first_render Active) (1 / 2) (start Active)))) = 1"
proof -
  have a: "reconnectAttempts (first_render Active) < MAX_RECONNECT_ATTEMPTS"
    by (simp add: first_render_def MAX_RECONNECT_ATTEMPTS_def)
  have b: "\<forall>t\<in>set (timers (start Active)). fst t < nextHandle (start Active)"
    by (simp add: start_def)
  have c: "reconnect_delay 0 (1 / 2) = 3000"
    by (simp add: reconnect_delay_def base_delay_def BASE_RECONNECT_DELAY_def)
  show ?thesis
    using C8_counter_set_when_timer_fires [OF a b, of "1 / 2" noon] a b c
    by (simp add: start_def first_render_def)
qed

text \<open>
  C8 as stated fails: after the abnormal close has scheduled the reconnect timer, and
  before that timer fires, the counter is still 0; it becomes 1 when the timer fires.
\<close>

theorem C8_counter_unchanged_when_scheduled:
  "reconnectAttempts (store (run [mount (first_render Active), ws_error 0] (start Active))) = 0 \<and>
   pending_reconnects (run [mount (first_render Active), ws_error 0] (start Active)) = [] \<and>
   pending_reconnects (run [mount (first_render Active), ws_error 0,
      ws_close 0 1006 [] (1 / 2)] (start Active)) = [1] \<and>
   reconnectAttempts (store (run [mount (first_render Active), ws_error 0,
      ws_close 0 1006 [] (1 / 2)] (start Active))) = 0 \<and>
   reconnectAttempts (store (run [mount (first_render Active), ws_error 0,
      ws_close 0 1006 [] (1 / 2), fire 1 noon] (start Active))) = 1"
  by code_simp

text \<open>
  C5. The server cannot be reached from the start. Every socket and every reconnect timer
  of this run is created by closures of the first render, where \<open>reconnectAttempts\<close> is the
  constant 0: \<open>scheduleReconnect\<close> calls the \<open>connect\<close> of its own render (line 151), whose
  \<open>onclose\<close> calls that same \<open>scheduleReconnect\<close> (line 212). After five reconnect timers
  have fired and the sixth socket has closed abnormally, a sixth reconnect timer is
  pending, with the delay of attempt 0, and the stored counter is 1.
\<close>

theorem C5_sixth_reconnect_scheduled:
  "length (socks unreachable) = 6 \<and>
   map readyState (socks unreachable) = [CLOSED, CLOSED, CLOSED, CLOSED, CLOSED, CLOSED] \<and>
   map snd (settled unreachable) = [False, False, False, False, False, False] \<and>
   pending_reconnects unreachable = [6] \<and>
   map (fst \<circ> snd) (timers unreachable) = [3000] \<and>
   reconnectAttempts (store unreachable) = 1"
  by code_simp

text \<open>
  C9. Two sockets constructed through the same closure both close abnormally before any
  timer fires. The second \<open>scheduleReconnect\<close> reads the constant \<open>reconnectTimer = null\<close>
  of its render (line 131), does not cancel the timer the first one set, and two reconnect
  timers are pending.
\<close>

theorem C9_two_reconnect_timers_pending:
  "pending_reconnects (run [ws_close 0 1006 [] (1 / 2)] twice) = [1] \<and>
   pending_reconnects (run [ws_close 0 1006 [] (1 / 2), ws_close 1 1006 [] (1 / 2)] twice) =
     [1, 2]"
  by code_simp

subsection \<open>disconnect and the close handler\<close>

lemma timers_cleanupConnection:
  "set (timers (cleanupConnection r w)) \<subseteq> set (timers w)"
  by (auto simp: cleanupConnection_def stopPingInterval_def clearTimer_def Let_def setters
      split: option.splits)

lemma cleanupConnection_cancels:
  "reconnectTimer r = Some h \<or> pingInterval r = Some h \<Longrightarrow>
   h \<notin> fst ` set (timers (cleanupConnection r w))"
  by (auto simp: cleanupConnection_def stopPingInterval_def clearTimer_def Let_def setters
      split: option.splits)

lemma disconnect_cancels:
  "reconnectTimer r = Some h \<or> pingInterval r = Some h \<Longrightarrow>
   h \<notin> fst ` set (timers (disconnect r w))"
  using cleanupConnection_cancels [of r h w]
  by (auto simp: disconnect_def close_call_def Let_def setters split: option.splits)

lemma onclose_without_reconnect:
  assumes "code = 1000 \<or> appState r \<noteq> Active \<or> \<not> isNetworkAvailable r"
  shows "set (timers (onclose r code reason u w)) \<subseteq> set (timers w)"
proof -
  have "timers (onclose r code reason u w) =
      timers (cleanupConnection r (setSocket None (setIsConnecting False (setIsConnected False
        (say (Closed code (if reason = [] then ''No reason provided'' else reason)) w)))))"
    using assms by (auto simp: onclose_def Let_def)
  then show ?thesis
    using timers_cleanupConnection
      [of r "setSocket None (setIsConnecting False (setIsConnected False
        (say (Closed code (if reason = [] then ''No reason provided'' else reason)) w)))"]
    by (simp add: setters)
qed

lemma disconnect_then_close:
  "closeCall (socks (disconnect (store online) online) ! 0) =
     Some (1000, ''Client disconnected intentionally'') \<and>
   timers (run [\<lambda>w. disconnect (store w) w, ws_close 0 1000 [] (1 / 2)] online) = []"
  by code_simp

text \<open>
  C3. Two runs in which a reconnect is scheduled against the claim. In the first,
  \<open>disconnect()\<close> is called while the first socket is still connecting: the stored
  \<open>socket\<close> is \<open>null\<close> until \<open>onopen\<close>, so \<open>disconnect\<close> closes nothing (line 268), and
  when that socket then fails with code 1006 its \<open>onclose\<close> schedules a reconnect timer.
  In the second, the app goes to the background while connected and the socket closes
  with code 1006: the \<open>onclose\<close> handler was created by the \<open>connect\<close> of the first render
  and reads that render's constant \<open>appState = 'active'\<close> (line 211), not the stored state
  \<open>'background'\<close>, and schedules a reconnect timer while the app is in the background.
\<close>

theorem C3_reconnect_after_disconnect_and_in_background:
  "map closeCall (socks (run [mount (first_render Active), (\<lambda>w. disconnect (store w) w)]
      (start Active))) = [None] \<and>
   pending_reconnects (run [mount (first_render Active), (\<lambda>w. disconnect (store w) w),
      ws_error 0, ws_close 0 1006 [] (1 / 2)] (start Active)) = [1] \<and>
   appState (store backgrounded) = Background \<and>
   pending_reconnects backgrounded = [] \<and>
   pending_reconnects (ws_close 0 1006 [] (1 / 2) backgrounded) = [2] \<and>
   appState (store (ws_close 0 1006 [] (1 / 2) backgrounded)) = Background"
  by code_simp

subsection \<open>Inbound frames\<close>

lemma onmessage_not_json: "onmessage r (NotJson s) w = say ParseError w"
  by (simp add: onmessage_def)

lemma notify_delivers:
  "delivered (notify ls message w) = delivered w @ map (\<lambda>l. (fst l, message)) ls \<and>
   store (notify ls message w) = store w"
  by (induction ls arbitrary: w) (auto simp: Let_def say_def)

lemma onmessage_object:
  "onmessage r (JsonText (JObj ps)) w =
     notify (listeners r) (JObj ps)
       (setLastMessage (JObj ps)
         (if get_member (JObj ps) ''type'' \<noteq> Some (JStr ''pong'') \<and>
             get_member (JObj ps) ''type'' \<noteq> Some (JStr ''server_ping'')
          then say (Received (the (get_member (JObj ps) ''type''))) w else w))"
  by (simp add: onmessage_def Let_def)

text \<open>
  C6. Two inbound frames that parse and are not handled as the claim says. The frame
  \<open>null\<close> parses, but reading \<open>message.type\<close> (line 228) throws inside the \<open>try\<close>, so the
  frame is dropped and \<open>lastMessage\<close> keeps the earlier message. A listener registered after
  \<open>connect\<close> was called is in the stored set but not in the constant \<open>listeners\<close> that the
  \<open>onmessage\<close> handler reads (line 235): \<open>lastMessage\<close> is updated and the listener is not
  called.
\<close>

theorem C6_null_frame_and_late_listener:
  "JSON_parse (JsonText JNull) = Some JNull \<and>
   lastMessage (store (run [ws_message 0 (JsonText hello), ws_message 0 (JsonText JNull)]
      online)) = hello \<and>
   map fst (listeners (store (run [addListener (7, \<lambda>m. False), ws_message 0 (JsonText hello)]
      online))) = [7] \<and>
   lastMessage (store (run [addListener (7, \<lambda>m. False), ws_message 0 (JsonText hello)]
      online)) = hello \<and>
   delivered (run [addListener (7, \<lambda>m. False), ws_message 0 (JsonText hello)] online) = []"
  by code_simp

end
